theory Spec2Isabelle
  imports Complex_Main
begin

section \<open>Data model of the transcription service\<close>

text \<open>
  The service in \<^verbatim>\<open>audio_transcription/services/transcription_service.py\<close> passes
  Python dictionaries around. Each dictionary shape becomes a record. Times are Python
  numbers that the code only compares and copies; finite floats and ints compare exactly,
  so they are modelled as \<^typ>\<open>real\<close>; the one float operation of the service, the division
  in the fallback generator, is rounded as Python rounds it. A segment text is a Python \<^verbatim>\<open>str\<close>, a sequence of
  Unicode code points, kept as a list of code-point numbers because \<^verbatim>\<open>strip\<close> inspects
  the characters. Speaker labels are only compared and counted and stay \<^typ>\<open>string\<close>.
\<close>

type_synonym py_str = "nat list"

text \<open>
  What a call raises. \<^verbatim>\<open>ValueError\<close> and the errors of the libraries are instances of
  Python's \<^verbatim>\<open>Exception\<close>; \<^verbatim>\<open>KeyboardInterrupt\<close> and \<^verbatim>\<open>SystemExit\<close> derive from
  \<^verbatim>\<open>BaseException\<close> only, and a handler \<^verbatim>\<open>except Exception\<close> lets them pass.
\<close>

datatype error = ValueError | LibraryError string | Interrupt string

fun is_Exception :: "error \<Rightarrow> bool" where
  "is_Exception (Interrupt name) = False"
| "is_Exception e = True"

record transcript_segment =
  seg_start :: real
  seg_end :: real
  seg_text :: py_str

record diar_segment =
  diar_start :: real
  diar_end :: real
  diar_speaker :: string

record merged_segment =
  m_start :: real
  m_end :: real
  m_text :: py_str
  m_speaker :: string

text \<open>
  The recognizer's result: the key \<^verbatim>\<open>language\<close> may be absent (the code reads it with
  \<^verbatim>\<open>.get('language', 'en')\<close>), the other two keys are read with \<^verbatim>\<open>[...]\<close>.
\<close>

record transcription =
  segments :: "transcript_segment list"
  full_text :: py_str
  language :: "string option"

record transcript_result =
  r_segments :: "merged_segment list"
  r_text :: py_str
  r_language :: string

section \<open>Python built-ins used by the aligner\<close>

text \<open>
  \<^verbatim>\<open>str.strip()\<close> without arguments removes leading and trailing characters for which
  \<^verbatim>\<open>str.isspace\<close> holds. These are the code points CPython lists as whitespace.
\<close>

definition isspace :: "nat \<Rightarrow> bool" where
  "isspace c \<longleftrightarrow>
     (9 \<le> c \<and> c \<le> 13) \<or> (28 \<le> c \<and> c \<le> 32) \<or> c = 133 \<or> c = 160 \<or> c = 5760 \<or>
     (8192 \<le> c \<and> c \<le> 8202) \<or> c = 8232 \<or> c = 8233 \<or> c = 8239 \<or> c = 8287 \<or> c = 12288"

definition strip :: "py_str \<Rightarrow> py_str" where
  "strip s = rev (dropWhile isspace (rev (dropWhile isspace s)))"

text \<open>A string literal as a Python \<^verbatim>\<open>str\<close>: one code point per character.\<close>

definition str :: "string \<Rightarrow> py_str" where
  "str s = map of_char s"

text \<open>
  \<^verbatim>\<open>max(iterable, key=f)\<close> walks the iterable once and replaces the current best only by
  an item whose key is strictly greater, so among equal keys the first one met wins. On an
  empty iterable it raises \<^verbatim>\<open>ValueError\<close>.
\<close>

fun py_max_loop :: "('a \<Rightarrow> nat) \<Rightarrow> 'a \<Rightarrow> 'a list \<Rightarrow> 'a" where
  "py_max_loop key best [] = best"
| "py_max_loop key best (y # ys) =
     py_max_loop key (if key y > key best then y else best) ys"

definition py_max :: "('a \<Rightarrow> nat) \<Rightarrow> 'a list \<Rightarrow> error + 'a" where
  "py_max key xs = (case xs of [] \<Rightarrow> Inl ValueError | x # ys \<Rightarrow> Inr (py_max_loop key x ys))"

text \<open>
  \<^verbatim>\<open>set(overlapping_speakers)\<close> is iterated by \<^verbatim>\<open>max\<close>. The order in which a Python set
  yields its elements is fixed by the runtime (string hashes, insertion history), not by
  the source, so it is a parameter of the model: a function from the list to the sequence
  in which the set built from it is iterated. Whatever the runtime does, that sequence
  holds each distinct element of the list exactly once.
\<close>

type_synonym set_iteration = "string list \<Rightarrow> string list"

definition is_set_iteration :: "set_iteration \<Rightarrow> bool" where
  "is_set_iteration it \<longleftrightarrow> (\<forall>xs. distinct (it xs) \<and> set (it xs) = set xs)"

text \<open>
  Two iteration orders a runtime may realise: the order of first occurrence in the list,
  and the reverse of that order. (\<^const>\<open>remdups\<close> keeps the last occurrence of each element.)
\<close>

definition first_seen_order :: set_iteration where
  "first_seen_order xs = rev (remdups (rev xs))"

definition reversed_order :: set_iteration where
  "reversed_order xs = remdups (rev xs)"

section \<open>The aligner: \<^verbatim>\<open>_merge_transcription_with_diarization\<close>\<close>

text \<open>
  The inner loop over \<^verbatim>\<open>diarization\<close> appends the speaker of every entry that passes
  the test \<^verbatim>\<open>diar_segment['end'] > start_time and diar_segment['start'] < end_time\<close>.
\<close>

fun overlapping_loop :: "real \<Rightarrow> real \<Rightarrow> diar_segment list \<Rightarrow> string list \<Rightarrow> string list" where
  "overlapping_loop start_time end_time [] overlapping_speakers = overlapping_speakers"
| "overlapping_loop start_time end_time (d # diarization) overlapping_speakers =
     overlapping_loop start_time end_time diarization
       (if diar_end d > start_time \<and> diar_start d < end_time
        then overlapping_speakers @ [diar_speaker d]
        else overlapping_speakers)"

text \<open>
  \<^verbatim>\<open>max(set(overlapping_speakers), key=overlapping_speakers.count)
     if overlapping_speakers else "UNKNOWN"\<close>
\<close>

definition choose_speaker :: "set_iteration \<Rightarrow> string list \<Rightarrow> error + string" where
  "choose_speaker it overlapping_speakers =
     (if overlapping_speakers \<noteq> []
      then py_max (count_list overlapping_speakers) (it overlapping_speakers)
      else Inr ''UNKNOWN'')"

fun merge_loop ::
  "set_iteration \<Rightarrow> transcript_segment list \<Rightarrow> diar_segment list \<Rightarrow> merged_segment list
     \<Rightarrow> error + merged_segment list" where
  "merge_loop it [] diarization merged_segments = Inr merged_segments"
| "merge_loop it (segment # rest) diarization merged_segments =
     (let start_time = seg_start segment;
          end_time = seg_end segment;
          overlapping_speakers = overlapping_loop start_time end_time diarization []
      in case choose_speaker it overlapping_speakers of
           Inl e \<Rightarrow> Inl e
         | Inr speaker \<Rightarrow>
             merge_loop it rest diarization
               (merged_segments @
                 [\<lparr>m_start = start_time, m_end = end_time,
                   m_text = strip (seg_text segment), m_speaker = speaker\<rparr>]))"

definition merge_transcription_with_diarization ::
  "set_iteration \<Rightarrow> transcription \<Rightarrow> diar_segment list \<Rightarrow> error + transcript_result" where
  "merge_transcription_with_diarization it transcription diarization =
     (case merge_loop it (segments transcription) diarization [] of
        Inl e \<Rightarrow> Inl e
      | Inr merged_segments \<Rightarrow>
          Inr \<lparr>r_segments = merged_segments,
               r_text = full_text transcription,
               r_language = (case language transcription of None \<Rightarrow> ''en'' | Some l \<Rightarrow> l)\<rparr>)"

section \<open>The fallback generator: \<^verbatim>\<open>_simple_diarization\<close>\<close>

text \<open>
  \<^verbatim>\<open>int(x)\<close> truncates a float towards zero, and \<^verbatim>\<open>range(start, stop, step)\<close> with a
  positive step lists \<^verbatim>\<open>start, start + step, ...\<close> below \<^verbatim>\<open>stop\<close>.
\<close>

text \<open>
  \<^verbatim>\<open>a / b\<close> on two positive ints is the float nearest to the exact quotient, ties going to
  the even significand. A float has 53 significant bits: with \<open>2 ^ e \<le> a / b < 2 ^ (e + 1)\<close>
  the quotient is scaled by \<open>2 ^ (52 - e)\<close>, rounded to an integer and scaled back. The
  limits of the exponent are not modelled; durations in seconds are far from both.
\<close>

function bit_length :: "nat \<Rightarrow> nat" where
  "bit_length n = (if n = 0 then 0 else Suc (bit_length (n div 2)))"
  by pat_completeness auto
termination
  by (relation "measure id") auto

definition round_half_even :: "nat \<Rightarrow> nat \<Rightarrow> nat" where
  "round_half_even n d =
     (let q = n div d; r = n mod d
      in if 2 * r < d then q
         else if d < 2 * r then q + 1
         else if even q then q else q + 1)"

definition py_truediv :: "nat \<Rightarrow> nat \<Rightarrow> real" where
  "py_truediv a b =
     (if a = 0 then 0
      else
        let k = int (bit_length a) - int (bit_length b);
            e = (if b * 2 ^ nat k \<le> a * 2 ^ nat (- k) then k else k - 1);
            s = 52 - e;
            m = round_half_even (a * 2 ^ nat s) (b * 2 ^ nat (- s))
        in if 0 \<le> s then real m / 2 ^ nat s else real m * 2 ^ nat (- s))"

definition py_int :: "real \<Rightarrow> int" where
  "py_int x = (if 0 \<le> x then \<lfloor>x\<rfloor> else \<lceil>x\<rceil>)"

definition py_range :: "int \<Rightarrow> int \<Rightarrow> int \<Rightarrow> int list" where
  "py_range start stop step =
     map (\<lambda>k. start + int k * step) [0..<nat ((stop - start + step - 1) div step)]"

definition segment_length :: int where
  "segment_length = 10"

text \<open>The body of the \<^verbatim>\<open>for i in range(...)\<close> loop, one bucket appended per offset.\<close>

fun simple_loop :: "real \<Rightarrow> int list \<Rightarrow> diar_segment list \<Rightarrow> diar_segment list" where
  "simple_loop duration_seconds [] segs = segs"
| "simple_loop duration_seconds (i # offsets) segs =
     simple_loop duration_seconds offsets
       (segs @
         [\<lparr>diar_start = of_int i,
           diar_end = min (of_int (i + segment_length)) duration_seconds,
           diar_speaker = (if i mod 20 < 10 then ''SPEAKER_1'' else ''SPEAKER_2'')\<rparr>])"

text \<open>
  Everything after \<^verbatim>\<open>audio = AudioSegment.from_file(audio_path)\<close>: \<^verbatim>\<open>len(audio)\<close> is the
  length of the audio in whole milliseconds, \<^verbatim>\<open>duration_seconds = len(audio) / 1000\<close>.
\<close>

definition simple_buckets :: "nat \<Rightarrow> diar_segment list" where
  "simple_buckets len_audio =
     (let duration_seconds = py_truediv len_audio 1000
      in simple_loop duration_seconds
           (py_range 0 (py_int duration_seconds) segment_length) [])"

section \<open>The collaborators and the orchestrator\<close>

text \<open>
  The recognizer, the diarization engine, the audio library and the temporary-name
  generator are external. What each of them answers is a field of the environment; a call
  that raises answers \<^term>\<open>Inl e\<close>, and \<^term>\<open>e\<close> may be an interrupt that no handler
  of the service catches. The file system is the set of paths that exist; the model calls change it only where the service writes or
  removes a file, and \<^verbatim>\<open>os.remove\<close> of an existing path removes it.
\<close>

type_synonym path = string

record env =
  set_order :: set_iteration
  whisper_load_model :: "string \<Rightarrow> error + unit"
  pipeline_from_pretrained :: "error + bool"
  mktemp :: path
  audio_from_file :: "path \<Rightarrow> error + nat"
  audio_export :: "path \<Rightarrow> error + unit"
  export_leaves_file :: bool
  whisper_transcribe :: "path \<Rightarrow> error + transcription"
  pipeline_call :: "path \<Rightarrow> error + diar_segment list"

text \<open>
  The service object: a handle is \<^term>\<open>False\<close> while the attribute is \<^verbatim>\<open>None\<close>.
  \<^term>\<open>pipeline_from_pretrained\<close> answers \<^term>\<open>Inr False\<close> when the library returns
  \<^verbatim>\<open>None\<close> instead of a pipeline.
\<close>

record service =
  model_size :: string
  whisper_model :: bool
  diarization_pipeline :: bool

text \<open>
  \<^verbatim>\<open>_load_models\<close>: the recognizer is loaded with no handler around it; the engine is
  loaded inside \<^verbatim>\<open>try\<close>, and the handler \<^verbatim>\<open>except Exception\<close> leaves the handle
  \<^verbatim>\<open>None\<close> and goes on.
\<close>

definition load_models :: "env \<Rightarrow> service \<Rightarrow> (error + unit) \<times> service" where
  "load_models env self =
     (case (if \<not> whisper_model self
            then (case whisper_load_model env (model_size self) of
                    Inl e \<Rightarrow> Inl e
                  | Inr _ \<Rightarrow> Inr (self\<lparr>whisper_model := True\<rparr>))
            else Inr self) of
        Inl e \<Rightarrow> (Inl e, self)
      | Inr self1 \<Rightarrow>
          (if \<not> diarization_pipeline self1
           then (case pipeline_from_pretrained env of
                   Inl e \<Rightarrow>
                     (if is_Exception e
                      then (Inr (), self1\<lparr>diarization_pipeline := False\<rparr>)
                      else (Inl e, self1))
                 | Inr p \<Rightarrow> (Inr (), self1\<lparr>diarization_pipeline := p\<rparr>))
           else (Inr (), self1)))"

definition convert_audio_format ::
  "env \<Rightarrow> path \<Rightarrow> path option \<Rightarrow> path set \<Rightarrow> (error + path) \<times> path set" where
  "convert_audio_format env audio_path output_path fs =
     (let out = (case output_path of None \<Rightarrow> mktemp env | Some p \<Rightarrow> p)
      in case audio_from_file env audio_path of
           Inl e \<Rightarrow> (Inl e, fs)
         | Inr audio \<Rightarrow>
             (case audio_export env out of
                Inl e \<Rightarrow> (Inl e, if export_leaves_file env then insert out fs else fs)
              | Inr _ \<Rightarrow> (Inr out, insert out fs)))"

definition simple_diarization :: "env \<Rightarrow> path \<Rightarrow> error + diar_segment list" where
  "simple_diarization env audio_path =
     (case audio_from_file env audio_path of
        Inl e \<Rightarrow> Inl e
      | Inr len_audio \<Rightarrow> Inr (simple_buckets len_audio))"

text \<open>
  \<^verbatim>\<open>_perform_diarization\<close>: the whole body is inside \<^verbatim>\<open>try\<close>, and the handler of
  \<^verbatim>\<open>except Exception\<close> returns the fallback's answer, which may itself raise. What is
  not an \<^verbatim>\<open>Exception\<close> passes the handler.
\<close>

definition perform_diarization :: "env \<Rightarrow> service \<Rightarrow> path \<Rightarrow> error + diar_segment list" where
  "perform_diarization env self audio_path =
     (case (if \<not> diarization_pipeline self
            then simple_diarization env audio_path
            else pipeline_call env audio_path) of
        Inl e \<Rightarrow> (if is_Exception e then simple_diarization env audio_path else Inl e)
      | Inr segs \<Rightarrow> Inr segs)"

text \<open>
  \<^verbatim>\<open>_transcribe_audio\<close> logs and re-raises. Calling \<^verbatim>\<open>transcribe\<close> on a handle that is
  still \<^verbatim>\<open>None\<close> raises as well.
\<close>

definition transcribe_audio :: "env \<Rightarrow> service \<Rightarrow> path \<Rightarrow> error + transcription" where
  "transcribe_audio env self audio_path =
     (if whisper_model self then whisper_transcribe env audio_path
      else Inl (LibraryError ''AttributeError''))"

text \<open>
  \<^verbatim>\<open>if os.path.exists(processed_audio_path) and processed_audio_path != audio_file_path:
       os.remove(processed_audio_path)\<close>
\<close>

definition cleanup :: "path \<Rightarrow> path \<Rightarrow> path set \<Rightarrow> path set" where
  "cleanup processed_audio_path audio_file_path fs =
     (if processed_audio_path \<in> fs \<and> processed_audio_path \<noteq> audio_file_path
      then fs - {processed_audio_path} else fs)"

text \<open>The body of the \<^verbatim>\<open>try\<close> block of \<^verbatim>\<open>process_audio\<close>.\<close>

definition process_try ::
  "env \<Rightarrow> service \<Rightarrow> path \<Rightarrow> path \<Rightarrow> path set \<Rightarrow> (error + transcript_result) \<times> path set" where
  "process_try env self processed_audio_path audio_file_path fs =
     (case transcribe_audio env self processed_audio_path of
        Inl e \<Rightarrow> (Inl e, fs)
      | Inr transcription \<Rightarrow>
          (case perform_diarization env self processed_audio_path of
             Inl e \<Rightarrow> (Inl e, fs)
           | Inr diarization \<Rightarrow>
               (case merge_transcription_with_diarization (set_order env) transcription diarization of
                  Inl e \<Rightarrow> (Inl e, fs)
                | Inr result \<Rightarrow> (Inr result, cleanup processed_audio_path audio_file_path fs))))"

text \<open>
  \<^verbatim>\<open>process_audio\<close> returns the result or the propagated error, the service object as
  the call leaves it, and the file system as the call leaves it. The handler
  \<^verbatim>\<open>except Exception\<close> of the \<^verbatim>\<open>try\<close> block runs the cleanup and re-raises; there is
  no \<^verbatim>\<open>finally\<close>, so what is not an \<^verbatim>\<open>Exception\<close> leaves the block with no cleanup.
\<close>

definition process_audio ::
  "env \<Rightarrow> service \<Rightarrow> path \<Rightarrow> path set \<Rightarrow> (error + transcript_result) \<times> service \<times> path set" where
  "process_audio env self audio_file_path fs =
     (case load_models env self of
        (Inl e, self1) \<Rightarrow> (Inl e, self1, fs)
      | (Inr _, self1) \<Rightarrow>
          (case convert_audio_format env audio_file_path None fs of
             (Inl e, fs1) \<Rightarrow> (Inl e, self1, fs1)
           | (Inr processed_audio_path, fs1) \<Rightarrow>
               (case process_try env self1 processed_audio_path audio_file_path fs1 of
                  (Inl e, fs2) \<Rightarrow>
                    (if is_Exception e
                     then (Inl e, self1, cleanup processed_audio_path audio_file_path fs2)
                     else (Inl e, self1, fs2))
                | (Inr result, fs2) \<Rightarrow> (Inr result, self1, fs2))))"

section \<open>Vocabulary of the specification\<close>

text \<open>
  The specification's strict overlap of a diarization entry with a time interval, the
  overlap set of a transcript segment and the labels that occur in it.
\<close>

definition strictly_overlaps :: "diar_segment \<Rightarrow> real \<Rightarrow> real \<Rightarrow> bool" where
  "strictly_overlaps D ts te \<longleftrightarrow> diar_end D > ts \<and> diar_start D < te"

definition overlap_set :: "transcript_segment \<Rightarrow> diar_segment list \<Rightarrow> diar_segment list" where
  "overlap_set T diarization =
     filter (\<lambda>D. strictly_overlaps D (seg_start T) (seg_end T)) diarization"

definition overlap_labels :: "transcript_segment \<Rightarrow> diar_segment list \<Rightarrow> string list" where
  "overlap_labels T diarization = map diar_speaker (overlap_set T diarization)"

text \<open>
  The reading of the tie-break as "first seen among the overlapping entries": the first
  label of the overlap list, in list order, whose count is the highest.
\<close>

definition first_seen_majority :: "string list \<Rightarrow> string option" where
  "first_seen_majority xs =
     find (\<lambda>x. list_all (\<lambda>y. count_list xs y \<le> count_list xs x) xs) xs"

text \<open>
  An exit of a call that the handlers \<^verbatim>\<open>except Exception\<close> see: a return, or the
  propagation of an instance of \<^verbatim>\<open>Exception\<close>.
\<close>

definition returns_or_raises_Exception :: "error + 'a \<Rightarrow> bool" where
  "returns_or_raises_Exception r = (case r of Inl e \<Rightarrow> is_Exception e | Inr v \<Rightarrow> True)"

text \<open>
  The value the vote yields when it does not raise, and the aligned segment built from
  one transcript segment; the loops of the aligner are shown below to compute these.
\<close>

definition chosen :: "set_iteration \<Rightarrow> string list \<Rightarrow> string" where
  "chosen it xs =
     (if xs = [] then ''UNKNOWN''
      else py_max_loop (count_list xs) (hd (it xs)) (tl (it xs)))"

definition align :: "set_iteration \<Rightarrow> diar_segment list \<Rightarrow> transcript_segment \<Rightarrow> merged_segment" where
  "align it diarization T =
     \<lparr>m_start = seg_start T, m_end = seg_end T, m_text = strip (seg_text T),
      m_speaker = chosen it (overlap_labels T diarization)\<rparr>"

section \<open>Example inputs\<close>

text \<open>
  A recognizer result with one segment and no \<^verbatim>\<open>language\<close> key, as the mocked
  recognizer of \<^verbatim>\<open>tests.py\<close> returns it, and the diarization sequences of the
  specification's examples.
\<close>

definition single_segment :: "real \<Rightarrow> real \<Rightarrow> string \<Rightarrow> transcription" where
  "single_segment ts te txt =
     \<lparr>segments = [\<lparr>seg_start = ts, seg_end = te, seg_text = str txt\<rparr>],
      full_text = str txt, language = None\<rparr>"

definition majority_diarization :: "diar_segment list" where
  "majority_diarization =
     [\<lparr>diar_start = 0, diar_end = 3, diar_speaker = ''A''\<rparr>,
      \<lparr>diar_start = 3, diar_end = 6, diar_speaker = ''B''\<rparr>,
      \<lparr>diar_start = 6, diar_end = 9, diar_speaker = ''B''\<rparr>]"

definition tie_diarization :: "diar_segment list" where
  "tie_diarization =
     [\<lparr>diar_start = 0, diar_end = 5, diar_speaker = ''A''\<rparr>,
      \<lparr>diar_start = 5, diar_end = 10, diar_speaker = ''B''\<rparr>]"

text \<open>
  A world in which every collaborator answers except the diarization engine, whose
  inference raises; one in which the recognizer raises as well; one in which the engine
  cannot be loaded; one in which the normalized audio cannot be read back; one in which
  the recognizer is interrupted from the keyboard; and a service object as
  \<^verbatim>\<open>__init__\<close> leaves it and as a successful load leaves it.
\<close>

definition demo_env :: env where
  "demo_env =
     \<lparr>set_order = first_seen_order,
      whisper_load_model = (\<lambda>size. Inr ()),
      pipeline_from_pretrained = Inr True,
      mktemp = ''/tmp/tmpk3v9.wav'',
      audio_from_file = (\<lambda>p. Inr 25000),
      audio_export = (\<lambda>p. Inr ()),
      export_leaves_file = False,
      whisper_transcribe = (\<lambda>p. Inr (single_segment 0 2 ''This is a test'')),
      pipeline_call = (\<lambda>p. Inl (LibraryError ''inference failed''))\<rparr>"

definition failing_env :: env where
  "failing_env =
     demo_env\<lparr>whisper_transcribe := (\<lambda>p. Inl (LibraryError ''recognition failed''))\<rparr>"

definition unloadable_env :: env where
  "unloadable_env =
     demo_env\<lparr>pipeline_from_pretrained := Inl (LibraryError ''load failed''),
              pipeline_call := (\<lambda>p. Inr [])\<rparr>"

definition unreadable_env :: env where
  "unreadable_env =
     demo_env\<lparr>audio_from_file :=
       (\<lambda>p. if p = ''test_audio.mp3'' then Inr 25000
            else Inl (LibraryError ''FileNotFoundError''))\<rparr>"

definition interrupted_env :: env where
  "interrupted_env =
     demo_env\<lparr>whisper_transcribe := (\<lambda>p. Inl (Interrupt ''KeyboardInterrupt''))\<rparr>"

definition new_service :: service where
  "new_service = \<lparr>model_size = ''base'', whisper_model = False, diarization_pipeline = False\<rparr>"

definition loaded_service :: service where
  "loaded_service = \<lparr>model_size = ''base'', whisper_model = True, diarization_pipeline = True\<rparr>"

section \<open>The loops of the aligner in closed form\<close>

lemma overlapping_loop_eq:
  "overlapping_loop st et ds acc =
     acc @ map diar_speaker (filter (\<lambda>D. strictly_overlaps D st et) ds)"
  by (induction ds arbitrary: acc) (simp_all add: strictly_overlaps_def)

lemma overlapping_loop_labels:
  "overlapping_loop (seg_start T) (seg_end T) ds [] = overlap_labels T ds"
  by (simp add: overlapping_loop_eq overlap_labels_def overlap_set_def)

lemma py_max_loop_mem: "py_max_loop key b ys \<in> set (b # ys)"
  by (induction ys arbitrary: b) auto

lemma py_max_loop_ge_best: "key b \<le> key (py_max_loop key b ys)"
proof (induction ys arbitrary: b)
  case Nil
  show ?case by simp
next
  case (Cons y ys)
  have "key b \<le> key (if key y > key b then y else b)" by simp
  also have "\<dots> \<le> key (py_max_loop key (if key y > key b then y else b) ys)"
    by (rule Cons.IH)
  finally show ?case by simp
qed

lemma py_max_loop_ge: "x \<in> set (b # ys) \<Longrightarrow> key x \<le> key (py_max_loop key b ys)"
proof (induction ys arbitrary: b)
  case Nil
  then show ?case by simp
next
  case (Cons y ys)
  let ?b = "if key y > key b then y else b"
  from Cons.prems consider "x = b" | "x = y" | "x \<in> set ys" by auto
  then show ?case
  proof cases
    case 1
    then show ?thesis using py_max_loop_ge_best[of key b "y # ys"] by simp
  next
    case 2
    have "key y \<le> key ?b" by simp
    also have "\<dots> \<le> key (py_max_loop key ?b ys)" by (rule py_max_loop_ge_best)
    finally show ?thesis using 2 by simp
  next
    case 3
    then have "x \<in> set (?b # ys)" by simp
    from Cons.IH[OF this] show ?thesis by simp
  qed
qed

text \<open>The winner is the first item of the iteration that reaches the highest key.\<close>

lemma py_max_loop_first:
  "\<exists>pre post. b # ys = pre @ [py_max_loop key b ys] @ post \<and>
      (\<forall>p\<in>set pre. key p < key (py_max_loop key b ys))"
proof (induction ys arbitrary: b)
  case Nil
  have "[b] = [] @ [b] @ []" by simp
  then show ?case by force
next
  case (Cons y ys)
  show ?case
  proof (cases "key y > key b")
    case True
    let ?r = "py_max_loop key y ys"
    have r: "py_max_loop key b (y # ys) = ?r" using True by simp
    from Cons.IH[of y] obtain pre post where
      e: "y # ys = pre @ [?r] @ post" and lt: "\<forall>p\<in>set pre. key p < key ?r" by blast
    have "key y \<le> key ?r" by (rule py_max_loop_ge_best)
    then have "key b < key ?r" using True by simp
    then have "\<forall>p\<in>set (b # pre). key p < key ?r" using lt by simp
    moreover have "b # y # ys = (b # pre) @ [?r] @ post" using e by simp
    ultimately show ?thesis unfolding r by blast
  next
    case False
    let ?r = "py_max_loop key b ys"
    have r: "py_max_loop key b (y # ys) = ?r" using False by simp
    from Cons.IH[of b] obtain pre post where
      e: "b # ys = pre @ [?r] @ post" and lt: "\<forall>p\<in>set pre. key p < key ?r" by blast
    show ?thesis
    proof (cases pre)
      case Nil
      then have "b # ys = ?r # post" using e by auto
      then have "?r = b" by (rule list.inject[THEN iffD1, THEN conjunct1, symmetric])
      then have "b # y # ys = [] @ [?r] @ (y # ys)" by simp
      moreover have "\<forall>p\<in>set []. key p < key ?r" by simp
      ultimately show ?thesis unfolding r by blast
    next
      case (Cons p pre')
      then have pb: "p = b" and ys: "ys = pre' @ [?r] @ post" using e by auto
      have "key b < key ?r" using lt Cons pb by simp
      then have "key y < key ?r" using False by simp
      then have "\<forall>q\<in>set (b # y # pre'). key q < key ?r" using lt Cons pb by simp
      moreover have "b # y # ys = (b # y # pre') @ [?r] @ post" using ys by simp
      ultimately show ?thesis unfolding r by blast
    qed
  qed
qed

lemma is_set_iteration_first_seen: "is_set_iteration first_seen_order"
  by (simp add: is_set_iteration_def first_seen_order_def)

lemma is_set_iteration_reversed: "is_set_iteration reversed_order"
  by (simp add: is_set_iteration_def reversed_order_def)

lemma set_iteration_nonempty: "is_set_iteration it \<Longrightarrow> xs \<noteq> [] \<Longrightarrow> it xs \<noteq> []"
  by (metis is_set_iteration_def set_empty)

text \<open>Over a set iteration the vote never raises.\<close>

lemma choose_speaker_chosen:
  assumes "is_set_iteration it"
  shows "choose_speaker it xs = Inr (chosen it xs)"
proof (cases "xs = []")
  case True
  then show ?thesis by (simp add: choose_speaker_def chosen_def)
next
  case False
  then have "it xs \<noteq> []" using assms by (rule set_iteration_nonempty[rotated])
  then obtain y ys where "it xs = y # ys" by (cases "it xs") auto
  then show ?thesis using False by (simp add: choose_speaker_def chosen_def py_max_def)
qed

lemma merge_loop_align:
  assumes "is_set_iteration it"
  shows "merge_loop it segs diarization acc = Inr (acc @ map (align it diarization) segs)"
proof (induction segs arbitrary: acc)
  case Nil
  show ?case by simp
next
  case (Cons T segs)
  show ?case
    by (simp add: Let_def overlapping_loop_labels choose_speaker_chosen[OF assms] Cons.IH align_def)
qed

lemma merge_align:
  assumes "is_set_iteration it"
  shows "merge_transcription_with_diarization it t diarization =
     Inr \<lparr>r_segments = map (align it diarization) (segments t),
          r_text = full_text t,
          r_language = (case language t of None \<Rightarrow> ''en'' | Some l \<Rightarrow> l)\<rparr>"
  by (simp add: merge_transcription_with_diarization_def merge_loop_align[OF assms])

lemma chosen_mem:
  assumes "is_set_iteration it" "xs \<noteq> []"
  shows "chosen it xs \<in> set xs"
proof -
  have ne: "it xs \<noteq> []" using assms by (rule set_iteration_nonempty)
  have "py_max_loop (count_list xs) (hd (it xs)) (tl (it xs)) \<in> set (hd (it xs) # tl (it xs))"
    by (rule py_max_loop_mem)
  then have "chosen it xs \<in> set (it xs)" using ne assms(2) by (simp add: chosen_def)
  then show ?thesis using assms(1) by (simp add: is_set_iteration_def)
qed

lemma chosen_max:
  assumes "is_set_iteration it" "x \<in> set xs"
  shows "count_list xs x \<le> count_list xs (chosen it xs)"
proof -
  have xs: "xs \<noteq> []" using assms(2) by auto
  have ne: "it xs \<noteq> []" using assms(1) xs by (rule set_iteration_nonempty)
  have "x \<in> set (it xs)" using assms by (simp add: is_set_iteration_def)
  then have "x \<in> set (hd (it xs) # tl (it xs))" using ne by simp
  then have "count_list xs x
      \<le> count_list xs (py_max_loop (count_list xs) (hd (it xs)) (tl (it xs)))"
    by (rule py_max_loop_ge)
  then show ?thesis using xs by (simp add: chosen_def)
qed

lemma chosen_first:
  assumes "is_set_iteration it" "xs \<noteq> []"
  shows "\<exists>pre post. it xs = pre @ [chosen it xs] @ post \<and>
           (\<forall>p\<in>set pre. count_list xs p < count_list xs (chosen it xs))"
proof -
  have ne: "it xs \<noteq> []" using assms by (rule set_iteration_nonempty)
  have "\<exists>pre post. hd (it xs) # tl (it xs) =
           pre @ [py_max_loop (count_list xs) (hd (it xs)) (tl (it xs))] @ post \<and>
           (\<forall>p\<in>set pre. count_list xs p <
              count_list xs (py_max_loop (count_list xs) (hd (it xs)) (tl (it xs))))"
    by (rule py_max_loop_first)
  then show ?thesis using ne assms(2) by (simp add: chosen_def)
qed

section \<open>What \<^verbatim>\<open>strip\<close> removes\<close>

lemma rev_split_trailing: "u = rev (dropWhile P (rev u)) @ rev (takeWhile P (rev u))"
  by (metis rev_append rev_rev_ident takeWhile_dropWhile_id)

lemma strip_decompose:
  "\<exists>pre post. s = pre @ strip s @ post \<and> (\<forall>c\<in>set pre. isspace c) \<and> (\<forall>c\<in>set post. isspace c)"
proof -
  let ?u = "dropWhile isspace s"
  have 1: "s = takeWhile isspace s @ ?u" by simp
  have 2: "?u = strip s @ rev (takeWhile isspace (rev ?u))"
    unfolding strip_def by (rule rev_split_trailing)
  have "s = takeWhile isspace s @ strip s @ rev (takeWhile isspace (rev ?u))"
    using 1 2 by metis
  moreover have "\<forall>c\<in>set (takeWhile isspace s). isspace c"
    by (auto dest: set_takeWhileD)
  moreover have "\<forall>c\<in>set (rev (takeWhile isspace (rev ?u))). isspace c"
    by (auto dest: set_takeWhileD)
  ultimately show ?thesis by blast
qed

lemma strip_last: "strip s \<noteq> [] \<Longrightarrow> \<not> isspace (last (strip s))"
  by (simp add: strip_def last_rev hd_dropWhile)

lemma strip_hd:
  assumes "strip s \<noteq> []"
  shows "\<not> isspace (hd (strip s))"
proof -
  let ?u = "dropWhile isspace s"
  have 2: "?u = strip s @ rev (takeWhile isspace (rev ?u))"
    unfolding strip_def by (rule rev_split_trailing)
  have ne: "?u \<noteq> []" using 2 assms by (metis append_is_Nil_conv)
  have "hd ?u = hd (strip s)" using 2 assms by (metis hd_append2)
  moreover have "\<not> isspace (hd ?u)" using ne by (rule hd_dropWhile)
  ultimately show ?thesis by simp
qed

lemma strip_hello_world: "strip (str ''  hello world  '') = str ''hello world''"
  by (simp add: strip_def str_def isspace_def)

section \<open>Claims about the aligner\<close>

text \<open>
  Claim C1. For every transcription result and every diarization sequence the aligner
  returns, and its output has exactly one aligned segment per transcript segment: the
  two sequences have the same length, and the aligned segment at each position is built
  from the transcript segment at that position, so none is dropped or duplicated.
\<close>

theorem aligner_one_output_per_segment:
  assumes "is_set_iteration it"
  shows "\<exists>r. merge_transcription_with_diarization it t d = Inr r \<and>
             length (r_segments r) = length (segments t) \<and>
             (\<forall>i<length (segments t).
                m_start (r_segments r ! i) = seg_start (segments t ! i) \<and>
                m_end (r_segments r ! i) = seg_end (segments t ! i) \<and>
                m_text (r_segments r ! i) = strip (seg_text (segments t ! i)))"
  by (simp add: merge_align[OF assms] align_def)

theorem aligner_one_output_per_segment_witness:
  "is_set_iteration first_seen_order \<and>
   (\<exists>r. merge_transcription_with_diarization first_seen_order
          (single_segment 0 2 ''This is a test'')
          [\<lparr>diar_start = 0, diar_end = 10, diar_speaker = ''SPEAKER_1''\<rparr>] = Inr r \<and>
        length (r_segments r) = 1 \<and>
        m_start (r_segments r ! 0) = 0 \<and> m_end (r_segments r ! 0) = 2 \<and>
        m_text (r_segments r ! 0) = str ''This is a test'')"
  using aligner_one_output_per_segment[OF is_set_iteration_first_seen,
      of "single_segment 0 2 ''This is a test''"
         "[\<lparr>diar_start = 0, diar_end = 10, diar_speaker = ''SPEAKER_1''\<rparr>]"]
  by (simp add: is_set_iteration_first_seen single_segment_def strip_def str_def isspace_def)

text \<open>
  Claim C2. The overlap test is strict: the labels the aligner collects for a transcript
  segment \<open>(ts, te)\<close> are those of the diarization entries \<open>(ds, de, speaker)\<close> with
  \<open>de > ts\<close> and \<open>ds < te\<close>, in order, so an entry that only touches an endpoint is not
  collected; and a transcript segment that no entry overlaps in this sense is assigned
  the speaker \<open>UNKNOWN\<close>.
\<close>

theorem aligner_strict_overlap_unknown:
  assumes "is_set_iteration it"
  shows "\<exists>r. merge_transcription_with_diarization it t d = Inr r \<and>
     (\<forall>i<length (segments t).
        overlapping_loop (seg_start (segments t ! i)) (seg_end (segments t ! i)) d [] =
          map diar_speaker
            (filter (\<lambda>D. diar_end D > seg_start (segments t ! i) \<and>
                         diar_start D < seg_end (segments t ! i)) d) \<and>
        ((\<forall>D\<in>set d. diar_end D \<le> seg_start (segments t ! i) \<or>
                     seg_end (segments t ! i) \<le> diar_start D)
           \<longrightarrow> m_speaker (r_segments r ! i) = ''UNKNOWN''))"
proof -
  have "overlap_labels T d = []"
    if "\<forall>D\<in>set d. diar_end D \<le> seg_start T \<or> seg_end T \<le> diar_start D" for T
    using that
    by (auto simp: overlap_labels_def overlap_set_def strictly_overlaps_def filter_empty_conv)
  then show ?thesis
    by (simp add: merge_align[OF assms] align_def chosen_def overlapping_loop_eq
          strictly_overlaps_def)
qed

theorem aligner_strict_overlap_unknown_witness:
  "is_set_iteration first_seen_order \<and>
   seg_end (segments (single_segment 5 10 ''hi'') ! 0)
     \<le> diar_start \<lparr>diar_start = 10, diar_end = 15, diar_speaker = ''A''\<rparr> \<and>
   (\<exists>r. merge_transcription_with_diarization first_seen_order (single_segment 5 10 ''hi'')
          [\<lparr>diar_start = 10, diar_end = 15, diar_speaker = ''A''\<rparr>] = Inr r \<and>
        m_speaker (r_segments r ! 0) = ''UNKNOWN'')"
  using aligner_strict_overlap_unknown[OF is_set_iteration_first_seen,
      of "single_segment 5 10 ''hi''"
         "[\<lparr>diar_start = 10, diar_end = 15, diar_speaker = ''A''\<rparr>]"]
  by (simp add: is_set_iteration_first_seen single_segment_def)

lemma majority_labels:
  "overlap_labels (segments (single_segment 0 10 ''hi'') ! 0) majority_diarization =
     [''A'', ''B'', ''B'']"
  by (simp add: overlap_labels_def overlap_set_def strictly_overlaps_def single_segment_def
        majority_diarization_def)

lemma tie_labels:
  "overlap_labels (segments (single_segment 0 10 ''hi'') ! 0) tie_diarization = [''A'', ''B'']"
  by (simp add: overlap_labels_def overlap_set_def strictly_overlaps_def single_segment_def
        tie_diarization_def)

lemma single_segment_length: "0 < length (segments (single_segment ts te txt))"
  by (simp add: single_segment_def)

text \<open>
  Claim C3. When some label occurs strictly more often among the labels of a transcript
  segment's overlap set than every other label there, the aligner assigns that label:
  the vote counts overlapping entries and no duration enters it.
\<close>

theorem aligner_strict_majority_wins:
  assumes "is_set_iteration it"
  shows "\<exists>r. merge_transcription_with_diarization it t d = Inr r \<and>
     (\<forall>i<length (segments t). \<forall>l\<in>set (overlap_labels (segments t ! i) d).
        (\<forall>l'\<in>set (overlap_labels (segments t ! i) d). l' \<noteq> l \<longrightarrow>
            count_list (overlap_labels (segments t ! i) d) l'
              < count_list (overlap_labels (segments t ! i) d) l)
        \<longrightarrow> m_speaker (r_segments r ! i) = l)"
proof -
  have "chosen it xs = l"
    if l: "l \<in> set xs" and m: "\<forall>l'\<in>set xs. l' \<noteq> l \<longrightarrow> count_list xs l' < count_list xs l"
    for xs l
  proof (rule ccontr)
    assume ne: "chosen it xs \<noteq> l"
    have "xs \<noteq> []" using l by auto
    then have "chosen it xs \<in> set xs" using assms by (simp add: chosen_mem)
    then have "count_list xs (chosen it xs) < count_list xs l" using m ne by simp
    moreover have "count_list xs l \<le> count_list xs (chosen it xs)"
      using assms l by (rule chosen_max)
    ultimately show False by simp
  qed
  then show ?thesis
    by (simp add: merge_align[OF assms] align_def)
qed

theorem aligner_strict_majority_wins_witness:
  "is_set_iteration first_seen_order \<and>
   ''B'' \<in> set (overlap_labels (segments (single_segment 0 10 ''hi'') ! 0) majority_diarization) \<and>
   overlap_labels (segments (single_segment 0 10 ''hi'') ! 0) majority_diarization =
     [''A'', ''B'', ''B''] \<and>
   count_list [''A'', ''B'', ''B''] ''A'' < count_list [''A'', ''B'', ''B''] ''B'' \<and>
   (\<exists>r. merge_transcription_with_diarization first_seen_order (single_segment 0 10 ''hi'')
          majority_diarization = Inr r \<and>
        m_speaker (r_segments r ! 0) = ''B'')"
proof -
  from aligner_strict_majority_wins[OF is_set_iteration_first_seen,
      of "single_segment 0 10 ''hi''" majority_diarization]
  obtain r where
    r: "merge_transcription_with_diarization first_seen_order (single_segment 0 10 ''hi'')
          majority_diarization = Inr r"
    and a: "\<forall>i<length (segments (single_segment 0 10 ''hi'')).
        \<forall>l\<in>set (overlap_labels (segments (single_segment 0 10 ''hi'') ! i) majority_diarization).
        (\<forall>l'\<in>set (overlap_labels (segments (single_segment 0 10 ''hi'') ! i) majority_diarization).
            l' \<noteq> l \<longrightarrow>
            count_list (overlap_labels (segments (single_segment 0 10 ''hi'') ! i) majority_diarization) l'
              < count_list (overlap_labels (segments (single_segment 0 10 ''hi'') ! i) majority_diarization) l)
        \<longrightarrow> m_speaker (r_segments r ! i) = l"
    by blast
  from a[rule_format, OF single_segment_length, of "''B''"]
  have "m_speaker (r_segments r ! 0) = ''B''"
    by (simp add: majority_labels)
  with r show ?thesis
    by (simp add: is_set_iteration_first_seen majority_labels)
qed

text \<open>
  Claim C4, as stated, reads the tie-break as first-seen order among the overlapping
  diarization entries. The code iterates a set, whose order the runtime chooses: with
  the labels \<open>A\<close> then \<open>B\<close> tied at one occurrence each and a set that yields \<open>B\<close>
  before \<open>A\<close>, the aligner assigns \<open>B\<close>, while the first-seen tied label is \<open>A\<close>.
\<close>

theorem aligner_tie_not_first_seen_counterexample:
  "is_set_iteration reversed_order \<and>
   merge_transcription_with_diarization reversed_order (single_segment 0 10 ''hi'')
     tie_diarization =
   Inr \<lparr>r_segments = [\<lparr>m_start = 0, m_end = 10, m_text = str ''hi'', m_speaker = ''B''\<rparr>],
        r_text = str ''hi'', r_language = ''en''\<rparr> \<and>
   first_seen_majority
     (overlap_labels (segments (single_segment 0 10 ''hi'') ! 0) tie_diarization) = Some ''A''"
  by (simp add: is_set_iteration_reversed tie_labels first_seen_majority_def)
     (simp add: merge_transcription_with_diarization_def choose_speaker_def py_max_def
        reversed_order_def strip_def str_def isspace_def single_segment_def tie_diarization_def)

text \<open>
  Claim C4, amended. When the overlap set of a transcript segment is not empty, the
  aligner assigns a label of highest occurrence count, and among the labels tied for the
  highest count it assigns the one that comes earliest in the iteration order of the set
  of overlapping labels: every label iterated before the assigned one has a strictly
  lower count. That order is the runtime's set order, not the first-seen order of the
  diarization entries.
\<close>

theorem aligner_tie_first_in_set_iteration:
  assumes "is_set_iteration it"
  shows "\<exists>r. merge_transcription_with_diarization it t d = Inr r \<and>
     (\<forall>i<length (segments t). overlap_labels (segments t ! i) d \<noteq> [] \<longrightarrow>
        (\<forall>l\<in>set (overlap_labels (segments t ! i) d).
            count_list (overlap_labels (segments t ! i) d) l
              \<le> count_list (overlap_labels (segments t ! i) d) (m_speaker (r_segments r ! i))) \<and>
        (\<exists>pre post.
            it (overlap_labels (segments t ! i) d) = pre @ [m_speaker (r_segments r ! i)] @ post \<and>
            (\<forall>p\<in>set pre. count_list (overlap_labels (segments t ! i) d) p
               < count_list (overlap_labels (segments t ! i) d) (m_speaker (r_segments r ! i)))))"
  using chosen_max[OF assms] chosen_first[OF assms]
  by (simp add: merge_align[OF assms] align_def)

theorem aligner_tie_first_in_set_iteration_witness:
  "is_set_iteration reversed_order \<and>
   overlap_labels (segments (single_segment 0 10 ''hi'') ! 0) tie_diarization \<noteq> [] \<and>
   (\<exists>r. merge_transcription_with_diarization reversed_order (single_segment 0 10 ''hi'')
          tie_diarization = Inr r \<and>
        (\<forall>l\<in>set (overlap_labels (segments (single_segment 0 10 ''hi'') ! 0) tie_diarization).
            count_list (overlap_labels (segments (single_segment 0 10 ''hi'') ! 0) tie_diarization) l
              \<le> count_list (overlap_labels (segments (single_segment 0 10 ''hi'') ! 0) tie_diarization)
                  (m_speaker (r_segments r ! 0))) \<and>
        (\<exists>pre post.
            reversed_order (overlap_labels (segments (single_segment 0 10 ''hi'') ! 0) tie_diarization)
              = pre @ [m_speaker (r_segments r ! 0)] @ post \<and>
            (\<forall>p\<in>set pre.
               count_list (overlap_labels (segments (single_segment 0 10 ''hi'') ! 0) tie_diarization) p
               < count_list (overlap_labels (segments (single_segment 0 10 ''hi'') ! 0) tie_diarization)
                   (m_speaker (r_segments r ! 0)))))"
proof -
  have ne: "overlap_labels (segments (single_segment 0 10 ''hi'') ! 0) tie_diarization \<noteq> []"
    by (simp add: tie_labels)
  from aligner_tie_first_in_set_iteration[OF is_set_iteration_reversed,
      of "single_segment 0 10 ''hi''" tie_diarization]
  obtain r where
    r: "merge_transcription_with_diarization reversed_order (single_segment 0 10 ''hi'')
          tie_diarization = Inr r"
    and a: "\<forall>i<length (segments (single_segment 0 10 ''hi'')).
       overlap_labels (segments (single_segment 0 10 ''hi'') ! i) tie_diarization \<noteq> [] \<longrightarrow>
        (\<forall>l\<in>set (overlap_labels (segments (single_segment 0 10 ''hi'') ! i) tie_diarization).
            count_list (overlap_labels (segments (single_segment 0 10 ''hi'') ! i) tie_diarization) l
              \<le> count_list (overlap_labels (segments (single_segment 0 10 ''hi'') ! i) tie_diarization)
                  (m_speaker (r_segments r ! i))) \<and>
        (\<exists>pre post.
            reversed_order (overlap_labels (segments (single_segment 0 10 ''hi'') ! i) tie_diarization)
              = pre @ [m_speaker (r_segments r ! i)] @ post \<and>
            (\<forall>p\<in>set pre.
               count_list (overlap_labels (segments (single_segment 0 10 ''hi'') ! i) tie_diarization) p
               < count_list (overlap_labels (segments (single_segment 0 10 ''hi'') ! i) tie_diarization)
                   (m_speaker (r_segments r ! i))))"
    by blast
  from a[rule_format, OF single_segment_length ne] r ne show ?thesis
    using is_set_iteration_reversed by blast
qed

text \<open>
  Claim C8. The start and end of every aligned segment are those of its transcript
  segment, whatever the diarization sequence is.
\<close>

theorem aligner_copies_timing:
  assumes "is_set_iteration it"
  shows "\<exists>r. merge_transcription_with_diarization it t d = Inr r \<and>
             map m_start (r_segments r) = map seg_start (segments t) \<and>
             map m_end (r_segments r) = map seg_end (segments t)"
  by (simp add: merge_align[OF assms] align_def comp_def)

theorem aligner_copies_timing_witness:
  "is_set_iteration first_seen_order \<and>
   (\<exists>r. merge_transcription_with_diarization first_seen_order
          (single_segment 0 2 ''This is a test'')
          [\<lparr>diar_start = 1, diar_end = 7, diar_speaker = ''SPEAKER_1''\<rparr>] = Inr r \<and>
        map m_start (r_segments r) = [0] \<and> map m_end (r_segments r) = [2])"
  using aligner_copies_timing[OF is_set_iteration_first_seen,
      of "single_segment 0 2 ''This is a test''"
         "[\<lparr>diar_start = 1, diar_end = 7, diar_speaker = ''SPEAKER_1''\<rparr>]"]
  by (simp add: is_set_iteration_first_seen single_segment_def)

text \<open>
  Claim C9. The text of every aligned segment is the text of its transcript segment with
  leading and trailing whitespace stripped: the transcript text is the aligned text
  between a run of whitespace before and a run of whitespace after, and a non-empty
  aligned text neither starts nor ends with whitespace.
\<close>

theorem aligner_strips_text:
  assumes "is_set_iteration it"
  shows "\<exists>r. merge_transcription_with_diarization it t d = Inr r \<and>
     map m_text (r_segments r) = map (\<lambda>T. strip (seg_text T)) (segments t) \<and>
     (\<forall>i<length (segments t).
        (\<exists>pre post. seg_text (segments t ! i) = pre @ m_text (r_segments r ! i) @ post \<and>
            (\<forall>c\<in>set pre. isspace c) \<and> (\<forall>c\<in>set post. isspace c)) \<and>
        (m_text (r_segments r ! i) \<noteq> [] \<longrightarrow>
           \<not> isspace (hd (m_text (r_segments r ! i))) \<and>
           \<not> isspace (last (m_text (r_segments r ! i)))))"
  using strip_decompose strip_hd strip_last
  by (simp add: merge_align[OF assms] align_def comp_def)

theorem aligner_strips_text_witness:
  "is_set_iteration first_seen_order \<and>
   (\<exists>r. merge_transcription_with_diarization first_seen_order
          (single_segment 0 2 ''  hello world  '') [] = Inr r \<and>
        map m_text (r_segments r) = [str ''hello world''])"
  using aligner_strips_text[OF is_set_iteration_first_seen,
      of "single_segment 0 2 ''  hello world  ''" "[]"]
  by (auto simp add: is_set_iteration_first_seen single_segment_def strip_hello_world)

text \<open>
  Claim C10. The speaker of every aligned segment is either \<open>UNKNOWN\<close> or the label of
  a diarization entry that strictly overlaps the aligned segment's interval; the aligner
  invents no label.
\<close>

theorem aligner_speaker_provenance:
  assumes "is_set_iteration it"
  shows "\<exists>r. merge_transcription_with_diarization it t d = Inr r \<and>
     (\<forall>A\<in>set (r_segments r). m_speaker A = ''UNKNOWN'' \<or>
        (\<exists>D\<in>set d. diar_speaker D = m_speaker A \<and>
                    diar_end D > m_start A \<and> diar_start D < m_end A))"
proof -
  have "chosen it (overlap_labels T d) = ''UNKNOWN'' \<or>
        (\<exists>D\<in>set d. diar_speaker D = chosen it (overlap_labels T d) \<and>
                    diar_end D > seg_start T \<and> diar_start D < seg_end T)" for T
  proof (cases "overlap_labels T d = []")
    case True
    then show ?thesis by (simp add: chosen_def)
  next
    case False
    then have "chosen it (overlap_labels T d) \<in> set (overlap_labels T d)"
      using assms by (simp add: chosen_mem)
    then show ?thesis
      by (auto simp: overlap_labels_def overlap_set_def strictly_overlaps_def)
  qed
  then show ?thesis
    by (simp add: merge_align[OF assms] align_def image_iff Bex_def)
qed

theorem aligner_speaker_provenance_witness:
  "is_set_iteration first_seen_order \<and>
   (\<exists>r. merge_transcription_with_diarization first_seen_order (single_segment 0 10 ''hi'')
          majority_diarization = Inr r \<and>
      (\<forall>A\<in>set (r_segments r). m_speaker A = ''UNKNOWN'' \<or>
        (\<exists>D\<in>set majority_diarization. diar_speaker D = m_speaker A \<and>
                    diar_end D > m_start A \<and> diar_start D < m_end A)))"
  using aligner_speaker_provenance[OF is_set_iteration_first_seen,
      of "single_segment 0 10 ''hi''" majority_diarization]
  by (simp add: is_set_iteration_first_seen)

section \<open>The fallback generator\<close>

text \<open>
  The float division at the durations used below. 20.5, 25 and 0.5 are floats; 1.001 is
  not, and \<^verbatim>\<open>1001 / 1000\<close> is the float next to it.
\<close>

lemma py_truediv_20500: "py_truediv 20500 1000 = 41 / 2"
  by (simp add: py_truediv_def round_half_even_def Let_def)

lemma py_truediv_25000: "py_truediv 25000 1000 = 25"
  by (simp add: py_truediv_def round_half_even_def Let_def)

lemma py_truediv_500: "py_truediv 500 1000 = 1 / 2"
  by (simp add: py_truediv_def round_half_even_def Let_def)

lemma py_truediv_1001: "py_truediv 1001 1000 = 2254051613498933 / 2251799813685248"
  by (simp add: py_truediv_def round_half_even_def Let_def)

lemma simple_loop_eq:
  "simple_loop D offsets segs =
     segs @ map (\<lambda>i. \<lparr>diar_start = of_int i,
                      diar_end = min (of_int (i + segment_length)) D,
                      diar_speaker = (if i mod 20 < 10 then ''SPEAKER_1'' else ''SPEAKER_2'')\<rparr>)
              offsets"
  by (induction offsets arbitrary: segs) simp_all

text \<open>A duration of 25 seconds gives the three buckets of the specification's example.\<close>

lemma simple_buckets_25_seconds:
  "simple_buckets 25000 =
     [\<lparr>diar_start = 0, diar_end = 10, diar_speaker = ''SPEAKER_1''\<rparr>,
      \<lparr>diar_start = 10, diar_end = 20, diar_speaker = ''SPEAKER_2''\<rparr>,
      \<lparr>diar_start = 20, diar_end = 25, diar_speaker = ''SPEAKER_1''\<rparr>]"
  by (simp add: simple_buckets_def py_truediv_25000 py_int_def py_range_def segment_length_def
        upt_rec)

lemma simple_buckets_0_seconds: "simple_buckets 0 = []"
  by (simp add: simple_buckets_def py_truediv_def py_int_def py_range_def segment_length_def)

text \<open>
  Claim C5 says that for every duration \<open>D\<close> the buckets cover \<open>[0, D)\<close> and the last one
  ends exactly at \<open>D\<close>. The loop bound is \<^verbatim>\<open>int(duration_seconds)\<close>, so the fraction of a
  second after a whole multiple of ten seconds gets no bucket: an audio of 20500
  milliseconds (\<open>D = 20.5\<close>) yields two buckets, the last ending at 20, and an audio of 500
  milliseconds yields none, although \<^verbatim>\<open>min(i + segment_length, duration_seconds)\<close> is
  there to end the last bucket at the duration.
\<close>

theorem simple_buckets_drops_fractional_tail:
  "simple_buckets 20500 =
     [\<lparr>diar_start = 0, diar_end = 10, diar_speaker = ''SPEAKER_1''\<rparr>,
      \<lparr>diar_start = 10, diar_end = 20, diar_speaker = ''SPEAKER_2''\<rparr>] \<and>
   diar_end (last (simple_buckets 20500)) < real 20500 / 1000 \<and>
   simple_buckets 500 = []"
  by (simp add: simple_buckets_def py_truediv_20500 py_truediv_500 py_int_def py_range_def
        segment_length_def upt_rec)

section \<open>The orchestrator\<close>

lemma cleanup_idem: "cleanup p a (cleanup p a fs) = cleanup p a fs"
  by (auto simp: cleanup_def)

lemma convert_fs:
  assumes "convert_audio_format env a None fs = (Inr p, fs1)"
  shows "p = mktemp env \<and> fs1 = insert p fs"
  using assms by (auto simp: convert_audio_format_def Let_def split: sum.splits)

lemma process_try_fs:
  assumes "process_try env self p a fs = (res, fs2)"
  shows "(case res of Inl e \<Rightarrow> fs2 = fs | Inr r \<Rightarrow> fs2 = cleanup p a fs)"
  using assms by (auto simp: process_try_def split: sum.splits)

text \<open>
  After normalization \<^verbatim>\<open>process_audio\<close> leaves the file system with the cleanup
  applied once when it returns or propagates an \<^verbatim>\<open>Exception\<close>, and untouched when
  something else passes the handler.
\<close>

lemma process_audio_final_fs:
  assumes "load_models env self = (Inr (), self1)"
      and "convert_audio_format env a None fs = (Inr p, fs1)"
  shows "snd (snd (process_audio env self a fs)) =
           (if returns_or_raises_Exception (fst (process_audio env self a fs))
            then cleanup p a fs1 else fs1)"
proof -
  obtain res fs2 where t: "process_try env self1 p a fs1 = (res, fs2)"
    by (cases "process_try env self1 p a fs1")
  show ?thesis
  proof (cases res)
    case (Inl e)
    then have "fs2 = fs1" using process_try_fs[OF t] by simp
    then show ?thesis using assms t Inl
      by (simp add: process_audio_def returns_or_raises_Exception_def)
  next
    case (Inr r)
    then have "fs2 = cleanup p a fs1" using process_try_fs[OF t] by simp
    then show ?thesis using assms t Inr
      by (simp add: process_audio_def returns_or_raises_Exception_def)
  qed
qed

text \<open>
  Whenever the engine is absent or its inference raises an \<^verbatim>\<open>Exception\<close>, the
  diarization step answers what the fallback answers; the engine's error is dropped.
\<close>

lemma perform_diarization_fallback:
  assumes "\<not> diarization_pipeline self \<or> (\<exists>e. pipeline_call env p = Inl e \<and> is_Exception e)"
  shows "perform_diarization env self p = simple_diarization env p"
  using assms by (auto simp: perform_diarization_def split: sum.splits)

text \<open>A failed load of the engine is swallowed and leaves the handle empty.\<close>

lemma load_models_pipeline_failure:
  assumes "load_models env self = (Inr (), self1)"
      and "\<not> diarization_pipeline self" and "pipeline_from_pretrained env = Inl e"
  shows "\<not> diarization_pipeline self1"
  using assms by (auto simp: load_models_def split: sum.splits if_splits)

lemma load_models_returns:
  assumes "whisper_model self \<or> whisper_load_model env (model_size self) = Inr ()"
      and "diarization_pipeline self \<or>
           (\<forall>e. pipeline_from_pretrained env = Inl e \<longrightarrow> is_Exception e)"
  shows "\<exists>self1. load_models env self = (Inr (), self1)"
  using assms by (auto simp: load_models_def split: sum.splits)

lemma load_models_whisper:
  assumes "load_models env self = (Inr (), self1)"
  shows "whisper_model self1"
  using assms by (auto simp: load_models_def split: sum.splits if_splits)

lemma demo_load: "load_models demo_env new_service = (Inr (), loaded_service)"
  by (simp add: load_models_def demo_env_def new_service_def loaded_service_def)

lemma demo_convert:
  "convert_audio_format demo_env ''test_audio.mp3'' None {''test_audio.mp3''} =
     (Inr ''/tmp/tmpk3v9.wav'', {''/tmp/tmpk3v9.wav'', ''test_audio.mp3''})"
  by (simp add: convert_audio_format_def demo_env_def Let_def)

lemma failing_load: "load_models failing_env new_service = (Inr (), loaded_service)"
  by (simp add: load_models_def failing_env_def demo_env_def new_service_def loaded_service_def)

lemma failing_convert:
  "convert_audio_format failing_env ''test_audio.mp3'' None {''test_audio.mp3''} =
     (Inr ''/tmp/tmpk3v9.wav'', {''/tmp/tmpk3v9.wav'', ''test_audio.mp3''})"
  by (simp add: convert_audio_format_def failing_env_def demo_env_def Let_def)

lemma unreadable_load: "load_models unreadable_env new_service = (Inr (), loaded_service)"
  by (simp add: load_models_def unreadable_env_def demo_env_def new_service_def
        loaded_service_def)

lemma unreadable_convert:
  "convert_audio_format unreadable_env ''test_audio.mp3'' None {''test_audio.mp3''} =
     (Inr ''/tmp/tmpk3v9.wav'', {''/tmp/tmpk3v9.wav'', ''test_audio.mp3''})"
  by (simp add: convert_audio_format_def unreadable_env_def demo_env_def Let_def)

lemma interrupted_load: "load_models interrupted_env new_service = (Inr (), loaded_service)"
  by (simp add: load_models_def interrupted_env_def demo_env_def new_service_def
        loaded_service_def)

lemma interrupted_convert:
  "convert_audio_format interrupted_env ''test_audio.mp3'' None {''test_audio.mp3''} =
     (Inr ''/tmp/tmpk3v9.wav'', {''/tmp/tmpk3v9.wav'', ''test_audio.mp3''})"
  by (simp add: convert_audio_format_def interrupted_env_def demo_env_def Let_def)

text \<open>
  The exits on the example worlds. With a working recognizer the result is returned,
  labelled by the fallback, and the artifact is gone; the recognizer's failure is
  propagated and the artifact is gone.
\<close>

lemma demo_env_exit:
  "process_audio demo_env new_service ''test_audio.mp3'' {''test_audio.mp3''} =
     (Inr \<lparr>r_segments = [\<lparr>m_start = 0, m_end = 2, m_text = str ''This is a test'',
                           m_speaker = ''SPEAKER_1''\<rparr>],
           r_text = str ''This is a test'', r_language = ''en''\<rparr>,
      loaded_service, {''test_audio.mp3''})"
proof -
  have "process_try demo_env loaded_service ''/tmp/tmpk3v9.wav'' ''test_audio.mp3''
          {''/tmp/tmpk3v9.wav'', ''test_audio.mp3''} =
        (Inr \<lparr>r_segments = [\<lparr>m_start = 0, m_end = 2, m_text = str ''This is a test'',
                              m_speaker = ''SPEAKER_1''\<rparr>],
              r_text = str ''This is a test'', r_language = ''en''\<rparr>,
         {''test_audio.mp3''})"
    by (simp add: process_try_def transcribe_audio_def perform_diarization_def
          simple_diarization_def simple_buckets_25_seconds cleanup_def loaded_service_def
          demo_env_def single_segment_def merge_transcription_with_diarization_def
          choose_speaker_def py_max_def first_seen_order_def strip_def str_def isspace_def)
  then show ?thesis
    by (simp add: process_audio_def demo_load demo_convert)
qed

lemma failing_env_exit:
  "process_audio failing_env new_service ''test_audio.mp3'' {''test_audio.mp3''} =
     (Inl (LibraryError ''recognition failed''), loaded_service, {''test_audio.mp3''})"
proof -
  have "process_try failing_env loaded_service ''/tmp/tmpk3v9.wav'' ''test_audio.mp3''
          {''/tmp/tmpk3v9.wav'', ''test_audio.mp3''} =
        (Inl (LibraryError ''recognition failed''), {''/tmp/tmpk3v9.wav'', ''test_audio.mp3''})"
    by (simp add: process_try_def transcribe_audio_def loaded_service_def failing_env_def
          demo_env_def)
  then show ?thesis
    by (simp add: process_audio_def failing_load failing_convert cleanup_def)
qed

text \<open>
  Claim C6, as stated, has the diarization step return the fallback generator's output
  for every input once the engine has raised. The handler calls \<^verbatim>\<open>_simple_diarization\<close>
  unguarded, and that reads the audio again: when the engine's inference raises and the
  normalized audio cannot be read back, the step raises the read error and
  \<^verbatim>\<open>process_audio\<close> propagates it to its caller.
\<close>

theorem diarization_fallback_raises_counterexample:
  "load_models unreadable_env new_service = (Inr (), loaded_service) \<and>
   convert_audio_format unreadable_env ''test_audio.mp3'' None {''test_audio.mp3''} =
     (Inr ''/tmp/tmpk3v9.wav'', {''/tmp/tmpk3v9.wav'', ''test_audio.mp3''}) \<and>
   pipeline_call unreadable_env ''/tmp/tmpk3v9.wav'' = Inl (LibraryError ''inference failed'') \<and>
   is_Exception (LibraryError ''inference failed'') \<and>
   perform_diarization unreadable_env loaded_service ''/tmp/tmpk3v9.wav'' =
     Inl (LibraryError ''FileNotFoundError'') \<and>
   process_audio unreadable_env new_service ''test_audio.mp3'' {''test_audio.mp3''} =
     (Inl (LibraryError ''FileNotFoundError''), loaded_service, {''test_audio.mp3''})"
proof -
  have c: "pipeline_call unreadable_env ''/tmp/tmpk3v9.wav'' =
             Inl (LibraryError ''inference failed'')"
    by (simp add: unreadable_env_def demo_env_def)
  have d: "perform_diarization unreadable_env loaded_service ''/tmp/tmpk3v9.wav'' =
             Inl (LibraryError ''FileNotFoundError'')"
    by (simp add: perform_diarization_def simple_diarization_def loaded_service_def
          unreadable_env_def demo_env_def)
  have "process_try unreadable_env loaded_service ''/tmp/tmpk3v9.wav'' ''test_audio.mp3''
          {''/tmp/tmpk3v9.wav'', ''test_audio.mp3''} =
        (Inl (LibraryError ''FileNotFoundError''), {''/tmp/tmpk3v9.wav'', ''test_audio.mp3''})"
  proof -
    have "transcribe_audio unreadable_env loaded_service ''/tmp/tmpk3v9.wav'' =
            Inr (single_segment 0 2 ''This is a test'')"
      by (simp add: transcribe_audio_def loaded_service_def unreadable_env_def demo_env_def)
    then show ?thesis by (simp add: process_try_def d)
  qed
  then have "process_audio unreadable_env new_service ''test_audio.mp3'' {''test_audio.mp3''} =
     (Inl (LibraryError ''FileNotFoundError''), loaded_service, {''test_audio.mp3''})"
    by (simp add: process_audio_def unreadable_load unreadable_convert cleanup_def)
  with c d show ?thesis
    by (simp add: unreadable_load unreadable_convert)
qed

text \<open>
  Claim C6, amended. When the recognizer is available and the diarization engine raises
  an error (an instance of \<^verbatim>\<open>Exception\<close>), while it is loaded or while it runs, that
  error is caught and does not reach the caller of the orchestrator: loading returns
  normally and the diarization step answers exactly what the fallback generator answers
  for the normalized audio. When that audio can be read, the answer is the generator's
  buckets for its length, and \<^verbatim>\<open>process_audio\<close> returns the transcript aligned against
  those buckets; when it cannot be read, the answer is the read error of the fallback
  itself.
\<close>

theorem diarization_failure_falls_back:
  assumes "whisper_model self \<or> whisper_load_model env (model_size self) = Inr ()"
      and "(\<not> diarization_pipeline self \<and>
              (\<exists>e. pipeline_from_pretrained env = Inl e \<and> is_Exception e)) \<or>
           ((diarization_pipeline self \<or> (\<exists>b. pipeline_from_pretrained env = Inr b)) \<and>
              (\<exists>e. pipeline_call env p = Inl e \<and> is_Exception e))"
  shows "\<exists>self1. load_models env self = (Inr (), self1) \<and>
           perform_diarization env self1 p = simple_diarization env p \<and>
           (\<forall>len_audio. audio_from_file env p = Inr len_audio \<longrightarrow>
              perform_diarization env self1 p = Inr (simple_buckets len_audio) \<and>
              (\<forall>a fs fs1 t.
                 convert_audio_format env a None fs = (Inr p, fs1) \<and>
                 whisper_transcribe env p = Inr t \<longrightarrow>
                   fst (process_audio env self a fs) =
                     merge_transcription_with_diarization (set_order env) t
                       (simple_buckets len_audio) \<and>
                   (is_set_iteration (set_order env) \<longrightarrow>
                      (\<exists>r. fst (process_audio env self a fs) = Inr r)))) \<and>
           (\<forall>e. audio_from_file env p = Inl e \<longrightarrow> perform_diarization env self1 p = Inl e)"
proof -
  have "diarization_pipeline self \<or>
        (\<forall>e. pipeline_from_pretrained env = Inl e \<longrightarrow> is_Exception e)"
    using assms(2) by auto
  with assms(1) obtain self1 where load: "load_models env self = (Inr (), self1)"
    using load_models_returns by blast
  have "\<not> diarization_pipeline self1 \<or> (\<exists>e. pipeline_call env p = Inl e \<and> is_Exception e)"
    using load assms(2) load_models_pipeline_failure by blast
  then have 1: "perform_diarization env self1 p = simple_diarization env p"
    by (rule perform_diarization_fallback)
  have w: "whisper_model self1" using load by (rule load_models_whisper)
  have 2: "perform_diarization env self1 p = Inr (simple_buckets len_audio)"
    if "audio_from_file env p = Inr len_audio" for len_audio
    using 1 that by (simp add: simple_diarization_def)
  have 3: "fst (process_audio env self a fs) =
             merge_transcription_with_diarization (set_order env) t (simple_buckets len_audio)"
    if "audio_from_file env p = Inr len_audio"
      and "convert_audio_format env a None fs = (Inr p, fs1) \<and> whisper_transcribe env p = Inr t"
    for len_audio a fs fs1 t
    using load that(2) 2[OF that(1)] w
    by (simp add: process_audio_def process_try_def transcribe_audio_def split: sum.splits)
  have 4: "\<exists>r. merge_transcription_with_diarization (set_order env) t d = Inr r"
    if "is_set_iteration (set_order env)" for t d
    by (simp add: merge_align[OF that])
  have 5: "perform_diarization env self1 p = Inl e" if "audio_from_file env p = Inl e" for e
    using 1 that by (simp add: simple_diarization_def)
  have "perform_diarization env self1 p = simple_diarization env p \<and>
           (\<forall>len_audio. audio_from_file env p = Inr len_audio \<longrightarrow>
              perform_diarization env self1 p = Inr (simple_buckets len_audio) \<and>
              (\<forall>a fs fs1 t.
                 convert_audio_format env a None fs = (Inr p, fs1) \<and>
                 whisper_transcribe env p = Inr t \<longrightarrow>
                   fst (process_audio env self a fs) =
                     merge_transcription_with_diarization (set_order env) t
                       (simple_buckets len_audio) \<and>
                   (is_set_iteration (set_order env) \<longrightarrow>
                      (\<exists>r. fst (process_audio env self a fs) = Inr r)))) \<and>
           (\<forall>e. audio_from_file env p = Inl e \<longrightarrow> perform_diarization env self1 p = Inl e)"
  proof (intro conjI allI impI)
    show "perform_diarization env self1 p = simple_diarization env p" by (rule 1)
  next
    fix len_audio assume "audio_from_file env p = Inr len_audio"
    then show "perform_diarization env self1 p = Inr (simple_buckets len_audio)" by (rule 2)
  next
    fix len_audio a fs fs1 t
    assume l: "audio_from_file env p = Inr len_audio"
      and c: "convert_audio_format env a None fs = (Inr p, fs1) \<and> whisper_transcribe env p = Inr t"
    show "fst (process_audio env self a fs) =
            merge_transcription_with_diarization (set_order env) t (simple_buckets len_audio)"
      using l c by (rule 3)
  next
    fix len_audio a fs fs1 t
    assume l: "audio_from_file env p = Inr len_audio"
      and c: "convert_audio_format env a None fs = (Inr p, fs1) \<and> whisper_transcribe env p = Inr t"
      and i: "is_set_iteration (set_order env)"
    from 4[OF i] obtain r where
      "merge_transcription_with_diarization (set_order env) t (simple_buckets len_audio) = Inr r"
      by blast
    then show "\<exists>r. fst (process_audio env self a fs) = Inr r"
      using 3[OF l c] by simp
  next
    fix e assume "audio_from_file env p = Inl e"
    then show "perform_diarization env self1 p = Inl e" by (rule 5)
  qed
  with load show ?thesis by blast
qed

theorem diarization_failure_falls_back_witness:
  "whisper_load_model demo_env (model_size new_service) = Inr () \<and>
   pipeline_from_pretrained demo_env = Inr True \<and>
   pipeline_call demo_env ''/tmp/tmpk3v9.wav'' = Inl (LibraryError ''inference failed'') \<and>
   is_Exception (LibraryError ''inference failed'') \<and>
   audio_from_file demo_env ''/tmp/tmpk3v9.wav'' = Inr 25000 \<and>
   convert_audio_format demo_env ''test_audio.mp3'' None {''test_audio.mp3''} =
     (Inr ''/tmp/tmpk3v9.wav'', {''/tmp/tmpk3v9.wav'', ''test_audio.mp3''}) \<and>
   whisper_transcribe demo_env ''/tmp/tmpk3v9.wav'' = Inr (single_segment 0 2 ''This is a test'') \<and>
   is_set_iteration (set_order demo_env) \<and>
   load_models demo_env new_service = (Inr (), loaded_service) \<and>
   perform_diarization demo_env loaded_service ''/tmp/tmpk3v9.wav'' = Inr (simple_buckets 25000) \<and>
   (\<exists>r. fst (process_audio demo_env new_service ''test_audio.mp3'' {''test_audio.mp3''}) = Inr r) \<and>
   whisper_load_model unloadable_env (model_size new_service) = Inr () \<and>
   \<not> diarization_pipeline new_service \<and>
   pipeline_from_pretrained unloadable_env = Inl (LibraryError ''load failed'') \<and>
   is_Exception (LibraryError ''load failed'') \<and>
   audio_from_file unloadable_env ''/tmp/tmpk3v9.wav'' = Inr 25000 \<and>
   (\<exists>self1. load_models unloadable_env new_service = (Inr (), self1) \<and>
      perform_diarization unloadable_env self1 ''/tmp/tmpk3v9.wav'' = Inr (simple_buckets 25000))"
proof -
  have w: "whisper_load_model demo_env (model_size new_service) = Inr ()"
    by (simp add: demo_env_def)
  have b: "pipeline_from_pretrained demo_env = Inr True"
    by (simp add: demo_env_def)
  have t: "whisper_transcribe demo_env ''/tmp/tmpk3v9.wav'' =
             Inr (single_segment 0 2 ''This is a test'')"
    by (simp add: demo_env_def)
  have l: "audio_from_file demo_env ''/tmp/tmpk3v9.wav'' = Inr 25000"
    by (simp add: demo_env_def)
  have c: "pipeline_call demo_env ''/tmp/tmpk3v9.wav'' = Inl (LibraryError ''inference failed'')"
    by (simp add: demo_env_def)
  have x: "is_Exception (LibraryError ''inference failed'')" by simp
  have f: "(\<not> diarization_pipeline new_service \<and>
              (\<exists>e. pipeline_from_pretrained demo_env = Inl e \<and> is_Exception e)) \<or>
           ((diarization_pipeline new_service \<or> (\<exists>b. pipeline_from_pretrained demo_env = Inr b)) \<and>
              (\<exists>e. pipeline_call demo_env ''/tmp/tmpk3v9.wav'' = Inl e \<and> is_Exception e))"
    using b c x by blast
  have i: "is_set_iteration (set_order demo_env)"
    by (simp add: demo_env_def is_set_iteration_first_seen)
  from diarization_failure_falls_back[OF disjI2[OF w] f]
  obtain self1 where
    ld: "load_models demo_env new_service = (Inr (), self1)"
    and a0: "\<forall>len_audio. audio_from_file demo_env ''/tmp/tmpk3v9.wav'' = Inr len_audio \<longrightarrow>
              perform_diarization demo_env self1 ''/tmp/tmpk3v9.wav'' =
                Inr (simple_buckets len_audio) \<and>
              (\<forall>a fs fs1 t.
                 convert_audio_format demo_env a None fs = (Inr ''/tmp/tmpk3v9.wav'', fs1) \<and>
                 whisper_transcribe demo_env ''/tmp/tmpk3v9.wav'' = Inr t \<longrightarrow>
                   fst (process_audio demo_env new_service a fs) =
                     merge_transcription_with_diarization (set_order demo_env) t
                       (simple_buckets len_audio) \<and>
                   (is_set_iteration (set_order demo_env) \<longrightarrow>
                      (\<exists>r. fst (process_audio demo_env new_service a fs) = Inr r)))"
    by blast
  have s1: "self1 = loaded_service" using ld demo_load by simp
  note a = a0[unfolded s1]
  from a[rule_format, OF l]
  have d: "perform_diarization demo_env loaded_service ''/tmp/tmpk3v9.wav'' =
             Inr (simple_buckets 25000)"
    and o: "\<forall>a fs fs1 t.
                 convert_audio_format demo_env a None fs = (Inr ''/tmp/tmpk3v9.wav'', fs1) \<and>
                 whisper_transcribe demo_env ''/tmp/tmpk3v9.wav'' = Inr t \<longrightarrow>
                   fst (process_audio demo_env new_service a fs) =
                     merge_transcription_with_diarization (set_order demo_env) t
                       (simple_buckets 25000) \<and>
                   (is_set_iteration (set_order demo_env) \<longrightarrow>
                      (\<exists>r. fst (process_audio demo_env new_service a fs) = Inr r))"
    by blast+
  from o[rule_format, OF conjI[OF demo_convert t]] i
  have r: "\<exists>r. fst (process_audio demo_env new_service ''test_audio.mp3'' {''test_audio.mp3''}) = Inr r"
    by blast
  have w2: "whisper_load_model unloadable_env (model_size new_service) = Inr ()"
    by (simp add: unloadable_env_def demo_env_def)
  have n: "\<not> diarization_pipeline new_service" by (simp add: new_service_def)
  have p2: "pipeline_from_pretrained unloadable_env = Inl (LibraryError ''load failed'')"
    by (simp add: unloadable_env_def demo_env_def)
  have x2: "is_Exception (LibraryError ''load failed'')" by simp
  have l2: "audio_from_file unloadable_env ''/tmp/tmpk3v9.wav'' = Inr 25000"
    by (simp add: unloadable_env_def demo_env_def)
  have f2: "(\<not> diarization_pipeline new_service \<and>
              (\<exists>e. pipeline_from_pretrained unloadable_env = Inl e \<and> is_Exception e)) \<or>
           ((diarization_pipeline new_service \<or>
               (\<exists>b. pipeline_from_pretrained unloadable_env = Inr b)) \<and>
              (\<exists>e. pipeline_call unloadable_env ''/tmp/tmpk3v9.wav'' = Inl e \<and> is_Exception e))"
    using n p2 x2 by blast
  from diarization_failure_falls_back[OF disjI2[OF w2] f2] l2
  have u: "\<exists>self1. load_models unloadable_env new_service = (Inr (), self1) \<and>
      perform_diarization unloadable_env self1 ''/tmp/tmpk3v9.wav'' = Inr (simple_buckets 25000)"
    by blast
  from w b c x l demo_convert t i demo_load d r w2 n p2 x2 l2 u show ?thesis by blast
qed

text \<open>
  Claim C7, as stated, covers every exit of \<^verbatim>\<open>process_audio\<close> after normalization.
  The cleanup runs before the return and in the handler \<^verbatim>\<open>except Exception\<close>, and there
  is no \<^verbatim>\<open>finally\<close>: when the recognizer call is interrupted from the keyboard the
  interrupt leaves \<^verbatim>\<open>process_audio\<close> with the artifact still in place.
\<close>

theorem process_audio_interrupt_leaves_artifact_counterexample:
  "load_models interrupted_env new_service = (Inr (), loaded_service) \<and>
   convert_audio_format interrupted_env ''test_audio.mp3'' None {''test_audio.mp3''} =
     (Inr ''/tmp/tmpk3v9.wav'', {''/tmp/tmpk3v9.wav'', ''test_audio.mp3''}) \<and>
   ''/tmp/tmpk3v9.wav'' \<noteq> ''test_audio.mp3'' \<and>
   process_audio interrupted_env new_service ''test_audio.mp3'' {''test_audio.mp3''} =
     (Inl (Interrupt ''KeyboardInterrupt''), loaded_service,
      {''/tmp/tmpk3v9.wav'', ''test_audio.mp3''}) \<and>
   ''/tmp/tmpk3v9.wav'' \<in>
     snd (snd (process_audio interrupted_env new_service ''test_audio.mp3'' {''test_audio.mp3''}))"
proof -
  have "process_try interrupted_env loaded_service ''/tmp/tmpk3v9.wav'' ''test_audio.mp3''
          {''/tmp/tmpk3v9.wav'', ''test_audio.mp3''} =
        (Inl (Interrupt ''KeyboardInterrupt''), {''/tmp/tmpk3v9.wav'', ''test_audio.mp3''})"
    by (simp add: process_try_def transcribe_audio_def loaded_service_def interrupted_env_def
          demo_env_def)
  then have "process_audio interrupted_env new_service ''test_audio.mp3'' {''test_audio.mp3''} =
     (Inl (Interrupt ''KeyboardInterrupt''), loaded_service,
      {''/tmp/tmpk3v9.wav'', ''test_audio.mp3''})"
    by (simp add: process_audio_def interrupted_load interrupted_convert)
  then show ?thesis
    by (simp add: interrupted_load interrupted_convert)
qed

text \<open>
  Claim C7, amended. Once normalization has produced its artifact, every exit of
  \<^verbatim>\<open>process_audio\<close> that is a return or the propagation of an \<^verbatim>\<open>Exception\<close> raised by
  transcription, diarization or alignment leaves a file system in which the artifact
  does not exist, provided the artifact's path differs from the input path; and on every
  exit the input file, if it existed before the call, still exists after it.
\<close>

theorem process_audio_removes_artifact:
  assumes "load_models env self = (Inr (), self1)"
      and "convert_audio_format env audio_file_path None fs = (Inr processed_audio_path, fs1)"
  shows "(returns_or_raises_Exception (fst (process_audio env self audio_file_path fs)) \<longrightarrow>
          processed_audio_path \<noteq> audio_file_path \<longrightarrow>
            processed_audio_path \<notin> snd (snd (process_audio env self audio_file_path fs))) \<and>
         (audio_file_path \<in> fs \<longrightarrow>
            audio_file_path \<in> snd (snd (process_audio env self audio_file_path fs)))"
proof -
  have f: "snd (snd (process_audio env self audio_file_path fs)) =
           (if returns_or_raises_Exception (fst (process_audio env self audio_file_path fs))
            then cleanup processed_audio_path audio_file_path fs1 else fs1)"
    using assms by (rule process_audio_final_fs)
  have "fs1 = insert processed_audio_path fs" using convert_fs[OF assms(2)] by simp
  then show ?thesis unfolding f by (auto simp: cleanup_def)
qed

theorem process_audio_removes_artifact_witness:
  "load_models failing_env new_service = (Inr (), loaded_service) \<and>
   convert_audio_format failing_env ''test_audio.mp3'' None {''test_audio.mp3''} =
     (Inr ''/tmp/tmpk3v9.wav'', {''/tmp/tmpk3v9.wav'', ''test_audio.mp3''}) \<and>
   fst (process_audio failing_env new_service ''test_audio.mp3'' {''test_audio.mp3''}) =
     Inl (LibraryError ''recognition failed'') \<and>
   returns_or_raises_Exception
     (fst (process_audio failing_env new_service ''test_audio.mp3'' {''test_audio.mp3''})) \<and>
   ''/tmp/tmpk3v9.wav'' \<noteq> ''test_audio.mp3'' \<and>
   ''test_audio.mp3'' \<in> {''test_audio.mp3''} \<and>
   ''/tmp/tmpk3v9.wav'' \<notin>
     snd (snd (process_audio failing_env new_service ''test_audio.mp3'' {''test_audio.mp3''})) \<and>
   ''test_audio.mp3'' \<in>
     snd (snd (process_audio failing_env new_service ''test_audio.mp3'' {''test_audio.mp3''}))"
proof -
  have e: "fst (process_audio failing_env new_service ''test_audio.mp3'' {''test_audio.mp3''}) =
             Inl (LibraryError ''recognition failed'')"
    by (simp add: failing_env_exit)
  then have h: "returns_or_raises_Exception
     (fst (process_audio failing_env new_service ''test_audio.mp3'' {''test_audio.mp3''}))"
    by (simp add: returns_or_raises_Exception_def)
  have n: "''/tmp/tmpk3v9.wav'' \<noteq> ''test_audio.mp3''" by simp
  have m: "''test_audio.mp3'' \<in> {''test_audio.mp3''}" by simp
  from process_audio_removes_artifact[OF failing_load failing_convert] h n m
  have "''/tmp/tmpk3v9.wav'' \<notin>
     snd (snd (process_audio failing_env new_service ''test_audio.mp3'' {''test_audio.mp3''}))"
    and "''test_audio.mp3'' \<in>
     snd (snd (process_audio failing_env new_service ''test_audio.mp3'' {''test_audio.mp3''}))"
    by blast+
  with failing_load failing_convert e h n m show ?thesis by blast
qed

end
